theory Spec2Isabelle
  imports Complex_Main "HOL-Library.Word"
begin

section \<open>Values shared by the whole module\<close>

text \<open>
  The module \<open>openspecrtra_tools.py\<close> raises only built-in Python exceptions. Each
  \<open>raise\<close> of the source, and each exception raised by the interpreter on its behalf
  (a missing argument, an attribute read on \<open>None\<close>, an index out of range, the end of an
  iteration), is a value of the type \<open>error\<close>; a function that can raise returns
  \<open>error + 'a\<close> with \<open>Inl\<close> for the exception.
\<close>

datatype error =
    ValueError string
  | TypeError string
  | AttributeError string
  | IndexError
  | StopIteration

text \<open>
  A NumPy floating-point value. A finite value is given by the real number it denotes, and
  the two signed zeros are one value; the three special values are kept apart because the
  source compares against them. The division that yields the pixel coordinates is rounded
  (\<open>np_div\<close> below); the arithmetic of the geo coordinates is taken as exact.
\<close>

datatype npfloat = Fin real | PInf | NInf | NaN

text \<open>
  A NumPy array: its shape and its elements in row-major order. A well-formed array holds
  as many elements as its shape says.
\<close>

record 'a ndarray =
  shape :: "nat list"
  data :: "'a list"

definition wf_ndarray :: "'a ndarray \<Rightarrow> bool" where
  "wf_ndarray a = (length (data a) = prod_list (shape a))"

text \<open>
  The element \<open>a[i, j]\<close> and the slice \<open>a[:, j]\<close> of a two-dimensional array.
\<close>

definition item2 :: "'a ndarray \<Rightarrow> nat \<Rightarrow> nat \<Rightarrow> 'a" where
  "item2 a i j = data a ! (i * (shape a ! 1) + j)"

definition column :: "'a ndarray \<Rightarrow> nat \<Rightarrow> 'a list" where
  "column a j = map (\<lambda>i. item2 a i j) [0..<shape a ! 0]"

text \<open>
  Indexing \<open>xs[i]\<close> of a one-dimensional array with a Python integer: a negative index
  counts from the end, and an index outside \<open>-len .. len - 1\<close> raises \<open>IndexError\<close>.
\<close>

definition getitem :: "'a list \<Rightarrow> int \<Rightarrow> error + 'a" where
  "getitem xs i =
     (if 0 \<le> i \<and> i < int (length xs) then Inr (xs ! nat i)
      else if i < 0 \<and> - int (length xs) \<le> i then Inr (xs ! nat (int (length xs) + i))
      else Inl IndexError)"

subsection \<open>Floating-point operations used on the point table\<close>

text \<open>
  True division of two floating-point values, with the IEEE special cases. The quotient of
  two finite values is the exact quotient rounded to a float64; it need not be the exact
  quotient, and it is an infinity when the exact quotient is too large. The rounding is
  the parameter \<open>round64\<close> of the model: the float64 that IEEE arithmetic gives for an
  exact real result.
\<close>

fun np_div :: "(real \<Rightarrow> npfloat) \<Rightarrow> npfloat \<Rightarrow> npfloat \<Rightarrow> npfloat" where
  "np_div round64 (Fin x) (Fin z) =
     (if z \<noteq> 0 then round64 (x / z) else if 0 < x then PInf else if x < 0 then NInf else NaN)"
| "np_div round64 (Fin x) PInf = Fin 0"
| "np_div round64 (Fin x) NInf = Fin 0"
| "np_div round64 PInf (Fin z) = (if 0 \<le> z then PInf else NInf)"
| "np_div round64 NInf (Fin z) = (if 0 \<le> z then NInf else PInf)"
| "np_div round64 _ _ = NaN"

fun np_floor :: "npfloat \<Rightarrow> npfloat" where
  "np_floor (Fin x) = Fin (of_int \<lfloor>x\<rfloor>)"
| "np_floor v = v"

type_synonym int16 = "16 word"

text \<open>
  \<open>astype(np.int16)\<close> on a floating-point value is a C cast: it truncates towards zero
  and is defined when the truncated value fits 16 signed bits. Outside that range, and on
  infinities and NaN, the result is whatever the platform produces; the model takes that
  as the parameter \<open>oor\<close>.
\<close>

definition astype_int16 :: "(npfloat \<Rightarrow> int16) \<Rightarrow> npfloat \<Rightarrow> int16" where
  "astype_int16 oor v =
     (case v of
        Fin x \<Rightarrow>
          if - 32769 < x \<and> x < 32768
          then word_of_int (if 0 \<le> x then \<lfloor>x\<rfloor> else \<lceil>x\<rceil>)
          else oor v
      | _ \<Rightarrow> oor v)"

section \<open>RegionOfInterest\<close>

text \<open>
  Modelled from the spec: \<open>OpenSpectraHeader.MapInfo\<close> lives in
  \<open>openspectra_file.py\<close>, which is not part of the sources at hand. The record has the
  accessors the spec lists: reference pixel, pixel size and zero coordinate as numbers
  (idealised as reals), the projection name and datum as strings, the zone and the area
  as optional values.
\<close>

record MapInfo =
  x_reference_pixel :: real
  y_reference_pixel :: real
  x_pixel_size :: real
  y_pixel_size :: real
  x_zero_coordinate :: real
  y_zero_coordinate :: real
  projection_name :: string
  projection_zone :: "int option"
  projection_area :: "string option"
  datum :: string

text \<open>
  The private fields of \<open>RegionOfInterest\<close>. The accessor methods \<open>x_points()\<close>,
  \<open>y_points()\<close>, \<open>image_height()\<close>, \<open>image_width()\<close>, \<open>image_name()\<close>,
  \<open>display_name()\<close>, \<open>map_info()\<close> and \<open>id()\<close> return a field unchanged and are the
  record's selectors.
\<close>

record RegionOfInterest =
  index :: int
  region_id :: string
  display_name :: "string option"
  image_height :: int
  image_width :: int
  image_name :: string
  band_name :: "string option"
  x_points :: "int16 list"
  y_points :: "int16 list"
  iter_limit :: int
  x_coords :: "real list option"
  y_coords :: "real list option"
  map_info :: "MapInfo option"

definition calculate_coords :: "RegionOfInterest \<Rightarrow> RegionOfInterest" where
  "calculate_coords r =
     (case map_info r of
        Some m \<Rightarrow>
          r\<lparr>x_coords := Some (map (\<lambda>p. (real_of_int (sint p) - (x_reference_pixel m - 1))
                                      * x_pixel_size m + x_zero_coordinate m) (x_points r)),
            y_coords := Some (map (\<lambda>p. y_zero_coordinate m
                                      - (real_of_int (sint p) - (y_reference_pixel m - 1))
                                        * y_pixel_size m) (y_points r))\<rparr>
      | None \<Rightarrow> r)"

text \<open>
  The constructor. \<open>self_str\<close> is \<open>str(self)\<close>, which the source stores as the object's id;
  \<open>round64\<close> is the rounding of the float64 division and \<open>oor\<close> the platform's result of
  an out-of-range cast to \<open>int16\<close>.
\<close>

definition RegionOfInterest_init ::
  "(real \<Rightarrow> npfloat) \<Rightarrow> (npfloat \<Rightarrow> int16) \<Rightarrow> string \<Rightarrow> npfloat ndarray \<Rightarrow> npfloat \<Rightarrow> npfloat \<Rightarrow> int \<Rightarrow> int \<Rightarrow>
   string \<Rightarrow> string option \<Rightarrow> MapInfo option \<Rightarrow> error + RegionOfInterest" where
  "RegionOfInterest_init round64 oor self_str area x_zoom_factor y_zoom_factor
       img_height img_width img_name disp_name mi =
     (if length (shape area) \<noteq> 2 then
        Inl (ValueError ''Parameter 'area' dimensions are not valid, expect a 2 dimensional array'')
      else if shape area ! 1 \<noteq> 2 then
        Inl (ValueError ''Parameter 'area' dimensions are not valid, expect the second dimension of the array to be 2'')
      else
        let xs = map (\<lambda>v. astype_int16 oor (np_floor (np_div round64 v x_zoom_factor))) (column area 0);
            ys = map (\<lambda>v. astype_int16 oor (np_floor (np_div round64 v y_zoom_factor))) (column area 1)
        in if length xs \<noteq> length ys then
             Inl (ValueError ''Number of x points doesn't match number of y points'')
           else
             Inr (calculate_coords
                   \<lparr>index = - 1,
                    region_id = self_str,
                    display_name = disp_name,
                    image_height = img_height,
                    image_width = img_width,
                    image_name = img_name,
                    band_name = None,
                    x_points = xs,
                    y_points = ys,
                    iter_limit = int (length xs) - 1,
                    x_coords = None,
                    y_coords = None,
                    map_info = mi\<rparr>))"

definition RegionOfInterest_iter :: "RegionOfInterest \<Rightarrow> RegionOfInterest" where
  "RegionOfInterest_iter r = r\<lparr>index := - 1\<rparr>"

definition RegionOfInterest_next :: "RegionOfInterest \<Rightarrow> error + RegionOfInterest" where
  "RegionOfInterest_next r =
     (if index r \<ge> iter_limit r then Inl StopIteration
      else Inr (r\<lparr>index := index r + 1\<rparr>))"

definition x_point :: "RegionOfInterest \<Rightarrow> error + int16" where
  "x_point r = getitem (x_points r) (index r)"

definition y_point :: "RegionOfInterest \<Rightarrow> error + int16" where
  "y_point r = getitem (y_points r) (index r)"

definition x_coordinate :: "RegionOfInterest \<Rightarrow> error + real option" where
  "x_coordinate r =
     (case x_coords r of
        Some cs \<Rightarrow> (case getitem cs (index r) of Inl e \<Rightarrow> Inl e | Inr v \<Rightarrow> Inr (Some v))
      | None \<Rightarrow> Inr None)"

definition y_coordinate :: "RegionOfInterest \<Rightarrow> error + real option" where
  "y_coordinate r =
     (case y_coords r of
        Some cs \<Rightarrow> (case getitem cs (index r) of Inl e \<Rightarrow> Inl e | Inr v \<Rightarrow> Inr (Some v))
      | None \<Rightarrow> Inr None)"

definition set_display_name :: "RegionOfInterest \<Rightarrow> string \<Rightarrow> RegionOfInterest" where
  "set_display_name r name = r\<lparr>display_name := Some name\<rparr>"

definition set_map_info :: "RegionOfInterest \<Rightarrow> MapInfo option \<Rightarrow> RegionOfInterest" where
  "set_map_info r mi = calculate_coords (r\<lparr>map_info := mi\<rparr>)"

subsection \<open>The \<open>for\<close> loop over a region\<close>

text \<open>
  \<open>for r in region: body\<close> calls \<open>__iter__\<close> once and then \<open>__next__\<close> until it raises
  \<open>StopIteration\<close>, running the body after each successful advance. \<open>for_each\<close> is the
  loop after \<open>__iter__\<close>: it returns what the bodies produced, in order, and the region
  as the loop leaves it. An exception of the body ends the loop.
\<close>

function for_each ::
  "(RegionOfInterest \<Rightarrow> error + 'b) \<Rightarrow> RegionOfInterest \<Rightarrow> error + ('b list \<times> RegionOfInterest)" where
  "for_each body r =
     (case RegionOfInterest_next r of
        Inl e \<Rightarrow> (if e = StopIteration then Inr ([], r) else Inl e)
      | Inr r' \<Rightarrow>
          (case body r' of
             Inl e \<Rightarrow> Inl e
           | Inr b \<Rightarrow>
               (case for_each body r' of
                  Inl e \<Rightarrow> Inl e
                | Inr (bs, rf) \<Rightarrow> Inr (b # bs, rf))))"
  by pat_completeness auto
termination
  by (relation "measure (\<lambda>(body, r). nat (iter_limit r - index r))")
     (auto simp: RegionOfInterest_next_def split: if_splits)

definition for_loop ::
  "(RegionOfInterest \<Rightarrow> error + 'b) \<Rightarrow> RegionOfInterest \<Rightarrow> error + ('b list \<times> RegionOfInterest)" where
  "for_loop body r = for_each body (RegionOfInterest_iter r)"

text \<open>A loop body that reads the pixel coordinates at the cursor.\<close>

definition pixel_at :: "RegionOfInterest \<Rightarrow> error + (int16 \<times> int16)" where
  "pixel_at r =
     (case x_point r of
        Inl e \<Rightarrow> Inl e
      | Inr x \<Rightarrow> (case y_point r of Inl e \<Rightarrow> Inl e | Inr y \<Rightarrow> Inr (x, y)))"

text \<open>
  The states a region can be in: built by the constructor, then changed by its methods.
\<close>

inductive reachable :: "RegionOfInterest \<Rightarrow> bool" where
  init: "RegionOfInterest_init round64 oor self_str area xz yz h w name dn mi = Inr r \<Longrightarrow> reachable r"
| iter: "reachable r \<Longrightarrow> reachable (RegionOfInterest_iter r)"
| advance: "reachable r \<Longrightarrow> RegionOfInterest_next r = Inr r' \<Longrightarrow> reachable r'"
| set_display_name: "reachable r \<Longrightarrow> reachable (set_display_name r name)"
| set_map_info: "reachable r \<Longrightarrow> reachable (set_map_info r mi)"

section \<open>Typed arrays, masks and reductions\<close>

text \<open>
  Modelled from the spec: \<open>OpenSpectraDataTypes.Ints\<close> and \<open>OpenSpectraDataTypes.Floats\<close>
  are constants of \<open>utils.py\<close>, which is not part of the sources at hand. The spec speaks
  of the integer and the floating-point family of pixel types and of every other type.
  An array is therefore one of three kinds: \<open>dtype in OpenSpectraDataTypes.Ints\<close> holds of
  an \<open>IntArray\<close>, \<open>dtype in OpenSpectraDataTypes.Floats\<close> of a \<open>FloatArray\<close>, and neither
  of an \<open>OtherArray\<close> (complex, boolean, object), which is known by the name of its type
  only.
\<close>

datatype int_dtype = Int8 | UInt8 | Int16 | UInt16 | Int32 | UInt32 | Int64 | UInt64

datatype float_dtype = Float32 | Float64

datatype nparray =
    IntArray int_dtype "int ndarray"
  | FloatArray float_dtype "npfloat ndarray"
  | OtherArray string

text \<open>
  A \<open>numpy.ma\<close> masked array is an array and one flag per element; a set flag takes the
  element out of every reduction. \<open>Plain\<close> is an array that was not masked.
\<close>

datatype cleaned =
    Plain nparray
  | Masked float_dtype "npfloat ndarray" "bool list"

fun bits :: "int_dtype \<Rightarrow> nat" where
  "bits Int8 = 8" | "bits UInt8 = 8"
| "bits Int16 = 16" | "bits UInt16 = 16"
| "bits Int32 = 32" | "bits UInt32 = 32"
| "bits Int64 = 64" | "bits UInt64 = 64"

fun is_signed :: "int_dtype \<Rightarrow> bool" where
  "is_signed Int8 = True" | "is_signed Int16 = True"
| "is_signed Int32 = True" | "is_signed Int64 = True"
| "is_signed UInt8 = False" | "is_signed UInt16 = False"
| "is_signed UInt32 = False" | "is_signed UInt64 = False"

text \<open>The value an integer takes when stored in a NumPy scalar of the given type.\<close>

definition wrap :: "int_dtype \<Rightarrow> int \<Rightarrow> int" where
  "wrap t v =
     (if is_signed t then (v + 2 ^ (bits t - 1)) mod 2 ^ bits t - 2 ^ (bits t - 1)
      else v mod 2 ^ bits t)"

definition in_range :: "int_dtype \<Rightarrow> int \<Rightarrow> bool" where
  "in_range t v =
     (if is_signed t then - (2 ^ (bits t - 1)) \<le> v \<and> v < 2 ^ (bits t - 1)
      else 0 \<le> v \<and> v < 2 ^ bits t)"

text \<open>IEEE comparisons: every comparison with NaN is false.\<close>

fun np_less :: "npfloat \<Rightarrow> npfloat \<Rightarrow> bool" where
  "np_less NaN b = False"
| "np_less a NaN = False"
| "np_less (Fin a) (Fin b) = (a < b)"
| "np_less (Fin a) PInf = True"
| "np_less (Fin a) NInf = False"
| "np_less PInf b = False"
| "np_less NInf (Fin b) = True"
| "np_less NInf PInf = True"
| "np_less NInf NInf = False"

definition np_greater :: "npfloat \<Rightarrow> npfloat \<Rightarrow> bool" where
  "np_greater a b = np_less b a"

fun np_eq :: "npfloat \<Rightarrow> npfloat \<Rightarrow> bool" where
  "np_eq NaN b = False"
| "np_eq a NaN = False"
| "np_eq a b = (a = b)"

fun isfinite :: "npfloat \<Rightarrow> bool" where
  "isfinite (Fin a) = True"
| "isfinite PInf = False"
| "isfinite NInf = False"
| "isfinite NaN = False"

text \<open>\<open>np.minimum\<close> and \<open>np.maximum\<close>: NaN wins over every other value.\<close>

definition np_minimum :: "npfloat \<Rightarrow> npfloat \<Rightarrow> npfloat" where
  "np_minimum a b = (if a = NaN \<or> b = NaN then NaN else if np_less b a then b else a)"

definition np_maximum :: "npfloat \<Rightarrow> npfloat \<Rightarrow> npfloat" where
  "np_maximum a b = (if a = NaN \<or> b = NaN then NaN else if np_less a b then b else a)"

text \<open>
  \<open>a.min()\<close> and \<open>a.max()\<close> over all elements; an empty array has no minimum and the call
  raises \<open>ValueError\<close>.
\<close>

definition reduce_all :: "('a \<Rightarrow> 'a \<Rightarrow> 'a) \<Rightarrow> 'a list \<Rightarrow> error + 'a" where
  "reduce_all f xs =
     (case xs of
        [] \<Rightarrow> Inl (ValueError ''zero-size array to reduction operation which has no identity'')
      | x # rest \<Rightarrow> Inr (foldl f x rest))"

definition float_min :: "npfloat list \<Rightarrow> error + npfloat" where
  "float_min xs = reduce_all np_minimum xs"

definition float_max :: "npfloat list \<Rightarrow> error + npfloat" where
  "float_max xs = reduce_all np_maximum xs"

definition int_min :: "int list \<Rightarrow> error + int" where
  "int_min xs = reduce_all min xs"

definition int_max :: "int list \<Rightarrow> error + int" where
  "int_max xs = reduce_all max xs"

text \<open>
  \<open>ma.masked_invalid(a)\<close> masks the elements that are not finite.
  \<open>ma.masked_outside(x, v1, v2)\<close> fills the masked elements of \<open>x\<close> with the fill value
  of its type (\<open>1e20\<close>), masks the elements with \<open>xf < v1\<close> or \<open>xf > v2\<close>, and keeps the
  mask \<open>x\<close> came with. Both leave the data as it is.
\<close>

definition masked_invalid :: "float_dtype \<Rightarrow> npfloat ndarray \<Rightarrow> cleaned" where
  "masked_invalid t a = Masked t a (map (\<lambda>v. \<not> isfinite v) (data a))"

definition fill_value :: npfloat where
  "fill_value = Fin (10 ^ 20)"

definition filled :: "npfloat list \<Rightarrow> bool list \<Rightarrow> npfloat list" where
  "filled xs ms = map (\<lambda>(v, m). if m then fill_value else v) (zip xs ms)"

definition outside :: "npfloat \<Rightarrow> npfloat \<Rightarrow> npfloat \<Rightarrow> bool" where
  "outside v1 v2 v = (np_less v v1 \<or> np_greater v v2)"

fun masked_outside :: "cleaned \<Rightarrow> npfloat \<Rightarrow> npfloat \<Rightarrow> cleaned" where
  "masked_outside (Plain (FloatArray t a)) v1 v2 =
     Masked t a (map (outside v1 v2) (data a))"
| "masked_outside (Masked t a ms) v1 v2 =
     Masked t a (map (\<lambda>(c, m). c \<or> m) (zip (map (outside v1 v2) (filled (data a) ms)) ms))"
| "masked_outside (Plain (IntArray t a)) v1 v2 = Plain (IntArray t a)"
| "masked_outside (Plain (OtherArray n)) v1 v2 = Plain (OtherArray n)"

section \<open>Bands and band statistics\<close>

text \<open>
  \<open>Bands.__init__(self, bands, labels)\<close> has two required parameters. A call that leaves
  \<open>labels\<close> out is the argument \<open>None\<close> of the model, and Python answers it with
  \<open>TypeError\<close> before the body runs.
\<close>

record Bands =
  bands :: cleaned
  labels :: "(string \<times> string) list"

definition Bands_init :: "cleaned \<Rightarrow> (string \<times> string) list option \<Rightarrow> error + Bands" where
  "Bands_init bs labels_arg =
     (case labels_arg of
        None \<Rightarrow> Inl (TypeError ''__init__() missing 1 required positional argument: labels'')
      | Some ls \<Rightarrow> Inr \<lparr>bands = bs, labels = ls\<rparr>)"

text \<open>
  The reductions along axis 0 are NumPy's; they are parameters of the model. Each gives one
  value per band, \<open>None\<close> where every sample of the band is masked.
\<close>

record reductions =
  mean0 :: "cleaned \<Rightarrow> npfloat option list"
  min0 :: "cleaned \<Rightarrow> npfloat option list"
  max0 :: "cleaned \<Rightarrow> npfloat option list"
  std0 :: "cleaned \<Rightarrow> npfloat option list"

fun np_add :: "npfloat \<Rightarrow> npfloat \<Rightarrow> npfloat" where
  "np_add NaN b = NaN"
| "np_add a NaN = NaN"
| "np_add (Fin a) (Fin b) = Fin (a + b)"
| "np_add PInf NInf = NaN"
| "np_add NInf PInf = NaN"
| "np_add PInf b = PInf"
| "np_add a PInf = PInf"
| "np_add NInf b = NInf"
| "np_add a NInf = NInf"

fun np_negative :: "npfloat \<Rightarrow> npfloat" where
  "np_negative (Fin a) = Fin (- a)"
| "np_negative PInf = NInf"
| "np_negative NInf = PInf"
| "np_negative NaN = NaN"

definition np_subtract :: "npfloat \<Rightarrow> npfloat \<Rightarrow> npfloat" where
  "np_subtract a b = np_add a (np_negative b)"

definition elementwise ::
  "(npfloat \<Rightarrow> npfloat \<Rightarrow> npfloat) \<Rightarrow> npfloat option list \<Rightarrow> npfloat option list \<Rightarrow> npfloat option list" where
  "elementwise f xs ys =
     map (\<lambda>(x, y). case x of None \<Rightarrow> None
                   | Some a \<Rightarrow> (case y of None \<Rightarrow> None | Some b \<Rightarrow> Some (f a b))) (zip xs ys)"

record BandStatistics = Bands +
  bs_mean :: "npfloat option list"
  bs_min :: "npfloat option list"
  bs_max :: "npfloat option list"
  bs_std :: "npfloat option list"
  bs_mean_plus :: "npfloat option list"
  bs_mean_minus :: "npfloat option list"

text \<open>
  \<open>BandStatistics.__init__\<close> starts with \<open>super().__init__(bands)\<close>: the parent's
  constructor, called without \<open>labels\<close>.
\<close>

definition BandStatistics_init :: "reductions \<Rightarrow> cleaned \<Rightarrow> error + BandStatistics" where
  "BandStatistics_init np bs =
     (case Bands_init bs None of
        Inl e \<Rightarrow> Inl e
      | Inr parent \<Rightarrow>
          let m = mean0 np bs; lo = min0 np bs; hi = max0 np bs; sd = std0 np bs
          in Inr \<lparr>bands = bands parent, labels = labels parent,
                  bs_mean = m, bs_min = lo, bs_max = hi, bs_std = sd,
                  bs_mean_plus = elementwise np_add m sd,
                  bs_mean_minus = elementwise np_subtract m sd\<rparr>)"

text \<open>
  \<open>OpenSpectraBandTools.__bogus_noise_cleanup\<close>. The test of the inner \<open>if\<close> compares
  \<open>min()\<close> and \<open>max()\<close> of the array with \<open>np.nan\<close> and \<open>np.inf\<close> by \<open>==\<close>.
\<close>

fun bogus_noise_cleanup :: "nparray \<Rightarrow> error + cleaned" where
  "bogus_noise_cleanup (FloatArray t a) =
     (case float_min (data a) of
        Inl e \<Rightarrow> Inl e
      | Inr lo \<Rightarrow>
          (case float_max (data a) of
             Inl e \<Rightarrow> Inl e
           | Inr hi \<Rightarrow>
               let clean_bands =
                     (if np_eq lo NaN \<or> np_eq hi NaN \<or> np_eq lo PInf \<or> np_eq hi PInf
                      then masked_invalid t a
                      else Plain (FloatArray t a))
               in Inr (masked_outside clean_bands (Fin 0) (Fin 1))))"
| "bogus_noise_cleanup (IntArray t a) = Inr (Plain (IntArray t a))"
| "bogus_noise_cleanup (OtherArray n) = Inr (Plain (OtherArray n))"

text \<open>
  \<open>OpenSpectraBandTools.band_statistics\<close>; \<open>file_bands\<close> is what
  \<open>self.__file.bands(lines, samples)\<close> returned.
\<close>

definition band_statistics :: "reductions \<Rightarrow> nparray \<Rightarrow> error + BandStatistics" where
  "band_statistics np file_bands =
     (case bogus_noise_cleanup file_bands of
        Inl e \<Rightarrow> Inl e
      | Inr c \<Rightarrow> BandStatistics_init np c)"

section \<open>Histogram data\<close>

text \<open>
  A value on an axis of a plot: the minimum and maximum of integer data are integers, those
  of floating-point data are floats.
\<close>

datatype number = IntV int | FloatV npfloat

record HistogramPlotData =
  x_data :: "number \<times> number"
  y_data :: "number list"
  x_label :: "string option"
  y_label :: "string option"
  title :: "string option"
  color :: string
  line_style :: string
  legend :: "string option"
  bins :: int
  lower_limit :: "number option"
  upper_limit :: "number option"

text \<open>The constructor of \<open>HistogramPlotData\<close> with the defaults of its signature.\<close>

definition HistogramPlotData_init ::
  "number \<times> number \<Rightarrow> number list \<Rightarrow> int \<Rightarrow> HistogramPlotData" where
  "HistogramPlotData_init xd yd n =
     \<lparr>x_data = xd, y_data = yd, x_label = None, y_label = None, title = None,
      color = ''b'', line_style = ''-'', legend = None,
      bins = n, lower_limit = None, upper_limit = None\<rparr>"

text \<open>
  \<open>OpenSpectraHistogramTools.__get_hist_data\<close>. \<open>float_bins\<close> is
  \<open>OpenSpectraProperties.FloatBins\<close>, a constant of \<open>utils.py\<close>. The three equations are
  the three branches on the type of the data. In the integer branch \<open>data.max()\<close> and
  \<open>data.min()\<close> are scalars of the type of the data and so is their difference.
\<close>

fun get_hist_data :: "int \<Rightarrow> nparray \<Rightarrow> error + HistogramPlotData" where
  "get_hist_data float_bins (IntArray t a) =
     (case int_min (data a) of
        Inl e \<Rightarrow> Inl e
      | Inr lo \<Rightarrow>
          (case int_max (data a) of
             Inl e \<Rightarrow> Inl e
           | Inr hi \<Rightarrow>
               Inr (HistogramPlotData_init (IntV lo, IntV hi) (map IntV (data a))
                      (wrap t (hi - lo)))))"
| "get_hist_data float_bins (FloatArray t a) =
     (case float_min (data a) of
        Inl e \<Rightarrow> Inl e
      | Inr lo \<Rightarrow>
          (case float_max (data a) of
             Inl e \<Rightarrow> Inl e
           | Inr hi \<Rightarrow>
               Inr (HistogramPlotData_init (FloatV lo, FloatV hi) (map FloatV (data a))
                      float_bins)))"
| "get_hist_data float_bins (OtherArray n) =
     Inl (TypeError (''Data with type '' @ n @ '' is not supported''))"

section \<open>Saving a region\<close>

text \<open>\<open>str\<close> of a Python integer.\<close>

fun str_nat :: "nat \<Rightarrow> string" where
  "str_nat n =
     (if n < 10 then [char_of (48 + n)]
      else str_nat (n div 10) @ [char_of (48 + n mod 10)])"

definition str_int :: "int \<Rightarrow> string" where
  "str_int i = (if i < 0 then CHR ''-'' # str_nat (nat (- i)) else str_nat (nat i))"

text \<open>
  \<open>fmt.format(*args)\<close> for the format strings of this module: a field is \<open>{d}\<close> with one
  digit and stands for the argument of that position; every other character is copied.
\<close>

fun py_format :: "string \<Rightarrow> string list \<Rightarrow> string" where
  "py_format (a # b # c # rest) args =
     (if a = CHR ''{'' \<and> c = CHR ''}'' \<and> 48 \<le> (of_char b :: nat) \<and> (of_char b :: nat) \<le> 57
      then (args ! ((of_char b :: nat) - 48)) @ py_format rest args
      else a # py_format (b # c # rest) args)"
| "py_format s args = s"

text \<open>
  The fields of \<open>OpenSpectraRegionTools\<close>. The band tools the constructor also stores are
  never used by the methods below.
\<close>

record OpenSpectraRegionTools =
  region :: RegionOfInterest
  tools_map_info :: "MapInfo option"
  projection :: string
  output_format :: string
  data_header :: string

text \<open>
  The constructor reads \<open>projection_name()\<close> off the region's map-info before it tests the
  map-info against \<open>None\<close>; on \<open>None\<close> the read raises \<open>AttributeError\<close>.
\<close>

definition OpenSpectraRegionTools_init :: "RegionOfInterest \<Rightarrow> error + OpenSpectraRegionTools" where
  "OpenSpectraRegionTools_init rg =
     (case map_info rg of
        None \<Rightarrow> Inl (AttributeError ''NoneType object has no attribute projection_name'')
      | Some m \<Rightarrow>
          let p0 = projection_name m;
              p1 = (case projection_zone m of Some z \<Rightarrow> p0 @ '' '' @ str_int z | None \<Rightarrow> p0);
              p2 = (case projection_area m of Some ar \<Rightarrow> p1 @ '' '' @ ar | None \<Rightarrow> p1);
              p3 = p2 @ '' '' @ datum m
          in if map_info rg \<noteq> None then
               Inr \<lparr>region = rg, tools_map_info = map_info rg, projection = p3,
                    output_format = ''{0},{1},{2},{3}'',
                    data_header = ''sample,line,x_coordinate,y_coordinate''\<rparr>
             else
               Inr \<lparr>region = rg, tools_map_info = map_info rg, projection = p3,
                    output_format = ''{0},{1}'',
                    data_header = ''sample,line''\<rparr>)"

definition get_data_header :: "OpenSpectraRegionTools \<Rightarrow> bool \<Rightarrow> string" where
  "get_data_header tools include_bands = data_header tools @ [CHR 0x0A]"

definition get_output_format :: "OpenSpectraRegionTools \<Rightarrow> bool \<Rightarrow> string" where
  "get_output_format tools include_bands = output_format tools @ [CHR 0x0A]"

definition str_opt :: "('a \<Rightarrow> string) \<Rightarrow> 'a option \<Rightarrow> string" where
  "str_opt f v = (case v of None \<Rightarrow> ''None'' | Some a \<Rightarrow> f a)"

text \<open>
  The body of the loop of \<open>save_region\<close>: the line written for the point at the cursor.
  \<open>x_point() + 1\<close> adds a Python integer to a NumPy scalar. \<open>str_float\<close> is Python's
  \<open>str\<close> of a float.
\<close>

definition region_line :: "(real \<Rightarrow> string) \<Rightarrow> string \<Rightarrow> RegionOfInterest \<Rightarrow> error + string" where
  "region_line str_float fmt r =
     (case x_point r of Inl e \<Rightarrow> Inl e | Inr x \<Rightarrow>
      (case y_point r of Inl e \<Rightarrow> Inl e | Inr y \<Rightarrow>
       (case x_coordinate r of Inl e \<Rightarrow> Inl e | Inr xc \<Rightarrow>
        (case y_coordinate r of Inl e \<Rightarrow> Inl e | Inr yc \<Rightarrow>
           Inr (py_format fmt
                  [str_int (sint x + 1), str_int (sint y + 1),
                   str_opt str_float xc, str_opt str_float yc])))))"

text \<open>
  \<open>save_region\<close>: the text written to the file, in order, and the tools with the region's
  cursor where the loop left it. Opening the file is outside the model.
\<close>

definition save_region ::
  "(real \<Rightarrow> string) \<Rightarrow> OpenSpectraRegionTools \<Rightarrow> bool \<Rightarrow> error + (string \<times> OpenSpectraRegionTools)" where
  "save_region str_float tools include_bands =
     (let rg = region tools;
          head = ''name:'' @ str_opt id (display_name rg) @ [CHR 0x0A]
               @ ''description:'' @ image_name rg @ [CHR 0x0A]
               @ ''image width:'' @ str_int (image_width rg) @ [CHR 0x0A]
               @ ''image height:'' @ str_int (image_height rg) @ [CHR 0x0A]
               @ ''projection:'' @ projection tools @ [CHR 0x0A]
               @ ''data:'' @ [CHR 0x0A]
               @ get_data_header tools include_bands;
          fmt = get_output_format tools include_bands
      in case for_loop (region_line str_float fmt) rg of
           Inl e \<Rightarrow> Inl e
         | Inr (ls, rg') \<Rightarrow> Inr (head @ concat ls, tools\<lparr>region := rg'\<rparr>))"

section \<open>Example data\<close>

text \<open>
  A point table of two points, a map-info, and the region the constructor builds from them
  with a zoom factor of 2 on both axes. The quotients by 2 are float64 values, so the
  rounding of the division leaves them as they are: it is \<open>Fin\<close> on this table, and on the
  tables of whole numbers with zoom factor 1 used further down.
\<close>

definition example_area :: "npfloat ndarray" where
  "example_area = \<lparr>shape = [2, 2], data = [Fin 4, Fin 7, Fin 11, Fin 1]\<rparr>"

definition example_map_info :: MapInfo where
  "example_map_info =
     \<lparr>x_reference_pixel = 1, y_reference_pixel = 1,
      x_pixel_size = 30, y_pixel_size = 30,
      x_zero_coordinate = 1000, y_zero_coordinate = 5000,
      projection_name = ''UTM'', projection_zone = Some 11,
      projection_area = Some ''North'', datum = ''WGS-84''\<rparr>"

definition example_region :: RegionOfInterest where
  "example_region =
     \<lparr>index = - 1, region_id = ''roi'', display_name = Some ''r1'',
      image_height = 10, image_width = 10, image_name = ''img'', band_name = None,
      x_points = [2, 5], y_points = [3, 0], iter_limit = 1,
      x_coords = Some [1060, 1150], y_coords = Some [4910, 5000],
      map_info = Some example_map_info\<rparr>"

text \<open>
  A point table with the point \<open>(1, 3)\<close> and a zoom factor of 0.1. The float64 nearest to
  0.1 is \<open>tenth\<close>, a little above one tenth, so the exact quotients \<open>1 / tenth\<close> and
  \<open>3 / tenth\<close> are a little below 10 and 30; the float64 division rounds them to 10.0
  and 30.0. \<open>round_tenth\<close> is the float64 rounding on these two quotients and leaves
  every other value as it is.
\<close>

definition tenth :: real where
  "tenth = 3602879701896397 / 36028797018963968"

definition tenth_area :: "npfloat ndarray" where
  "tenth_area = \<lparr>shape = [1, 2], data = [Fin 1, Fin 3]\<rparr>"

definition round_tenth :: "real \<Rightarrow> npfloat" where
  "round_tenth q =
     (if q = 1 / tenth then Fin 10 else if q = 3 / tenth then Fin 30 else Fin q)"

section \<open>Properties of the region\<close>

declare for_each.simps [simp del]

lemma length_column: "length (column a j) = shape a ! 0"
  by (simp add: column_def)

lemma nth_column: "i < shape a ! 0 \<Longrightarrow> column a j ! i = item2 a i j"
  by (simp add: column_def)

lemma calculate_coords_fields [simp]:
  "x_points (calculate_coords r) = x_points r"
  "y_points (calculate_coords r) = y_points r"
  "iter_limit (calculate_coords r) = iter_limit r"
  "index (calculate_coords r) = index r"
  "map_info (calculate_coords r) = map_info r"
  by (simp_all add: calculate_coords_def split: option.splits)

lemma astype_int16_floor:
  assumes "- 32768 \<le> \<lfloor>q\<rfloor>" "\<lfloor>q\<rfloor> \<le> 32767"
  shows "sint (astype_int16 oor (np_floor (Fin q))) = \<lfloor>q\<rfloor>"
proof -
  let ?k = "\<lfloor>q\<rfloor>"
  have r: "- 32769 < (of_int ?k :: real)" "(of_int ?k :: real) < 32768"
    using assms by linarith+
  have tr: "(if 0 \<le> (of_int ?k :: real) then \<lfloor>(of_int ?k :: real)\<rfloor> else \<lceil>(of_int ?k :: real)\<rceil>) = ?k"
    by simp
  have "astype_int16 oor (np_floor (Fin q)) = (word_of_int ?k :: int16)"
    using r unfolding astype_int16_def by (simp only: np_floor.simps npfloat.case if_True tr simp_thms)
  moreover have "sint (word_of_int ?k :: int16) = ?k"
    using assms by (simp add: sint_sbintrunc' signed_take_bit_int_eq_self)
  ultimately show ?thesis by simp
qed

lemma init_points_basic:
  assumes "shape area = [n, 2]"
  shows "\<exists>r. RegionOfInterest_init round64 oor s area xz yz h w nm dn mi = Inr r
           \<and> length (x_points r) = n \<and> length (y_points r) = n
           \<and> (\<forall>i<n. x_points r ! i = astype_int16 oor (np_floor (np_div round64 (item2 area i 0) xz))
                  \<and> y_points r ! i = astype_int16 oor (np_floor (np_div round64 (item2 area i 1) yz)))"
  using assms by (simp add: RegionOfInterest_init_def Let_def length_column nth_column)

lemma reachable_lengths:
  "reachable r \<Longrightarrow>
     length (x_points r) = length (y_points r) \<and> iter_limit r = int (length (x_points r)) - 1"
proof (induction rule: reachable.induct)
  case (init round64 oor self_str area xz yz h w name dn mi r)
  then show ?case
    by (auto simp: RegionOfInterest_init_def Let_def split: if_splits)
next
  case (iter r)
  then show ?case by (simp add: RegionOfInterest_iter_def)
next
  case (advance r r')
  then show ?case by (auto simp: RegionOfInterest_next_def split: if_splits)
next
  case (set_display_name r name)
  then show ?case by (simp add: set_display_name_def)
next
  case (set_map_info r mi)
  then show ?case by (simp add: set_map_info_def)
qed

lemma calculate_coords_Some:
  "map_info r = Some m \<Longrightarrow>
     x_coords (calculate_coords r) =
       Some (map (\<lambda>p. (real_of_int (sint p) - (x_reference_pixel m - 1)) * x_pixel_size m
                        + x_zero_coordinate m) (x_points r))
   \<and> y_coords (calculate_coords r) =
       Some (map (\<lambda>p. y_zero_coordinate m
                        - (real_of_int (sint p) - (y_reference_pixel m - 1)) * y_pixel_size m)
               (y_points r))"
  by (simp add: calculate_coords_def)

lemma reachable_coords:
  "reachable r \<Longrightarrow> map_info r = Some m \<Longrightarrow>
     x_coords r =
       Some (map (\<lambda>p. (real_of_int (sint p) - (x_reference_pixel m - 1)) * x_pixel_size m
                        + x_zero_coordinate m) (x_points r))
   \<and> y_coords r =
       Some (map (\<lambda>p. y_zero_coordinate m
                        - (real_of_int (sint p) - (y_reference_pixel m - 1)) * y_pixel_size m)
               (y_points r))"
proof (induction arbitrary: m rule: reachable.induct)
  case (init round64 oor self_str area xz yz h w name dn mi r)
  from init(1) obtain r0 where r: "r = calculate_coords r0" and mi: "map_info r0 = mi"
    by (auto simp: RegionOfInterest_init_def Let_def split: if_splits)
  from init(2) r mi have "map_info r0 = Some m" by simp
  from calculate_coords_Some [OF this] show ?case by (simp add: r)
next
  case (iter r)
  then show ?case by (simp add: RegionOfInterest_iter_def)
next
  case (advance r r')
  then show ?case by (auto simp: RegionOfInterest_next_def split: if_splits)
next
  case (set_display_name r name)
  then show ?case by (simp add: set_display_name_def)
next
  case (set_map_info r mi)
  from set_map_info(3) have "map_info (r\<lparr>map_info := mi\<rparr>) = Some m"
    by (simp add: set_map_info_def)
  from calculate_coords_Some [OF this] show ?case by (simp add: set_map_info_def)
qed

lemma for_each_pixel_at:
  assumes "length (x_points r) = length (y_points r)"
      and "iter_limit r = int (length (x_points r)) - 1"
      and "- 1 \<le> index r" and "index r \<le> iter_limit r"
  shows "for_each pixel_at r =
           Inr (drop (nat (index r + 1)) (zip (x_points r) (y_points r)), r\<lparr>index := iter_limit r\<rparr>)"
  using assms
proof (induction "nat (iter_limit r - index r)" arbitrary: r)
  case 0
  then have "index r = iter_limit r" by simp
  with 0 show ?case
    by (subst for_each.simps) (simp add: RegionOfInterest_next_def)
next
  case (Suc k)
  let ?r' = "r\<lparr>index := index r + 1\<rparr>"
  from Suc(2) have lt: "index r < iter_limit r" by linarith
  then have nx: "RegionOfInterest_next r = Inr ?r'"
    by (simp add: RegionOfInterest_next_def)
  have k: "k = nat (iter_limit ?r' - index ?r')" using Suc(2) by simp
  have ih: "for_each pixel_at ?r' =
      Inr (drop (nat (index ?r' + 1)) (zip (x_points ?r') (y_points ?r')), ?r'\<lparr>index := iter_limit ?r'\<rparr>)"
    by (rule Suc(1) [OF k]) (use Suc(3-6) lt in simp_all)
  let ?j = "nat (index r + 1)"
  have j: "?j < length (x_points r)" "?j < length (y_points r)" "0 \<le> index r + 1"
       "index r + 1 < int (length (x_points r))" "index r + 1 < int (length (y_points r))"
    using Suc(3-6) lt by simp_all
  have px: "pixel_at ?r' = Inr (x_points r ! ?j, y_points r ! ?j)"
    using j by (simp add: pixel_at_def x_point_def y_point_def getitem_def)
  have dr: "drop ?j (zip (x_points r) (y_points r)) =
              (x_points r ! ?j, y_points r ! ?j) # drop (Suc ?j) (zip (x_points r) (y_points r))"
    using j by (simp add: Cons_nth_drop_Suc [symmetric])
  have sj: "nat (index r + 1 + 1) = Suc ?j" "nat (2 + index r) = Suc ?j" using Suc(5) by simp_all
  show ?case
    by (subst for_each.simps) (simp add: nx px ih dr sj)
qed

lemma example_columns:
  "column example_area 0 = [Fin 4, Fin 11]" "column example_area (Suc 0) = [Fin 7, Fin 1]"
  by (simp_all add: column_def item2_def example_area_def eval_nat_numeral)

lemma example_shape: "shape example_area = [2, 2]"
  by (simp add: example_area_def)

lemma example_init:
  "RegionOfInterest_init Fin oor ''roi'' example_area (Fin 2) (Fin 2) 10 10 ''img'' (Some ''r1'')
     (Some example_map_info) = Inr example_region"
  by (simp add: RegionOfInterest_init_def Let_def example_columns astype_int16_def
        calculate_coords_def example_region_def example_map_info_def example_shape)

lemma example_reachable: "reachable example_region"
  by (rule reachable.init [OF example_init])

text \<open>
  Claim C8. A point table that is not two-dimensional, such as one of shape \<open>(N,)\<close>, or
  whose second dimension is not 2, such as one of shape \<open>(N, 3)\<close>, makes the constructor
  raise the \<open>ValueError\<close> of its shape check (the spec's \<open>InvalidShapeError\<close>), and no
  region is produced.
\<close>

theorem init_rejects_bad_shape:
  assumes "length (shape area) \<noteq> 2 \<or> shape area ! 1 \<noteq> 2"
  shows "(\<exists>msg. RegionOfInterest_init round64 oor s area xz yz h w nm dn mi = Inl (ValueError msg))
       \<and> (\<forall>r. RegionOfInterest_init round64 oor s area xz yz h w nm dn mi \<noteq> Inr r)"
  using assms by (auto simp: RegionOfInterest_init_def)

theorem init_rejects_bad_shape_witness:
  "(\<exists>msg. RegionOfInterest_init Fin (\<lambda>v. 0) ''roi'' \<lparr>shape = [3], data = [Fin 1, Fin 2, Fin 3]\<rparr>
            (Fin 1) (Fin 1) 10 10 ''img'' None None = Inl (ValueError msg))
   \<and> (\<exists>msg. RegionOfInterest_init Fin (\<lambda>v. 0) ''roi''
            \<lparr>shape = [2, 3], data = [Fin 1, Fin 2, Fin 3, Fin 4, Fin 5, Fin 6]\<rparr>
            (Fin 1) (Fin 1) 10 10 ''img'' None None = Inl (ValueError msg))"
  using init_rejects_bad_shape [of "\<lparr>shape = [3], data = [Fin 1, Fin 2, Fin 3]\<rparr>"
          Fin "\<lambda>v. 0" "''roi''" "Fin 1" "Fin 1" 10 10 "''img''" None None]
        init_rejects_bad_shape [of "\<lparr>shape = [2, 3], data = [Fin 1, Fin 2, Fin 3, Fin 4, Fin 5, Fin 6]\<rparr>"
          Fin "\<lambda>v. 0" "''roi''" "Fin 1" "Fin 1" 10 10 "''img''" None None]
  by simp

text \<open>
  Claim C5. For a well-formed point table of shape \<open>(N, 2)\<close> the constructor succeeds,
  both pixel sequences have length \<open>N\<close>, and for every row \<open>i\<close> the pixel coordinates are
  the floor of the quotient of the row's entry by the zoom factor, cast to a 16-bit signed
  integer. The quotient is the one the code computes, the float64 division: where it is the
  finite value \<open>q\<close> and the floor of \<open>q\<close> fits 16 signed bits, the stored value is exactly
  that floor.
\<close>

theorem init_pixel_points:
  assumes "wf_ndarray area" "shape area = [n, 2]"
  shows "\<exists>r. RegionOfInterest_init round64 oor s area xz yz h w nm dn mi = Inr r
           \<and> length (x_points r) = n \<and> length (y_points r) = n
           \<and> (\<forall>i<n. x_points r ! i = astype_int16 oor (np_floor (np_div round64 (item2 area i 0) xz))
                  \<and> y_points r ! i = astype_int16 oor (np_floor (np_div round64 (item2 area i 1) yz)))
           \<and> (\<forall>i<n. \<forall>x z q. item2 area i 0 = Fin x \<and> xz = Fin z \<and> z \<noteq> 0
                        \<and> round64 (x / z) = Fin q
                        \<and> - 32768 \<le> \<lfloor>q\<rfloor> \<and> \<lfloor>q\<rfloor> \<le> 32767
                    \<longrightarrow> sint (x_points r ! i) = \<lfloor>q\<rfloor>)
           \<and> (\<forall>i<n. \<forall>y z q. item2 area i 1 = Fin y \<and> yz = Fin z \<and> z \<noteq> 0
                        \<and> round64 (y / z) = Fin q
                        \<and> - 32768 \<le> \<lfloor>q\<rfloor> \<and> \<lfloor>q\<rfloor> \<le> 32767
                    \<longrightarrow> sint (y_points r ! i) = \<lfloor>q\<rfloor>)"
proof -
  from init_points_basic [OF assms(2), of round64 oor s xz yz h w nm dn mi]
  obtain r where r: "RegionOfInterest_init round64 oor s area xz yz h w nm dn mi = Inr r"
      "length (x_points r) = n" "length (y_points r) = n"
      "\<forall>i<n. x_points r ! i = astype_int16 oor (np_floor (np_div round64 (item2 area i 0) xz))
           \<and> y_points r ! i = astype_int16 oor (np_floor (np_div round64 (item2 area i 1) yz))"
    by blast
  have "sint (x_points r ! i) = \<lfloor>q\<rfloor>"
    if "i < n" "item2 area i 0 = Fin x" "xz = Fin z" "z \<noteq> 0" "round64 (x / z) = Fin q"
       "- 32768 \<le> \<lfloor>q\<rfloor>" "\<lfloor>q\<rfloor> \<le> 32767" for i x z q
  proof -
    from r(4) that(1) have "x_points r ! i = astype_int16 oor (np_floor (np_div round64 (item2 area i 0) xz))"
      by simp
    also have "np_div round64 (item2 area i 0) xz = Fin q"
      using that(2-5) by simp
    finally show ?thesis using astype_int16_floor [OF that(6,7), of oor] by simp
  qed
  moreover have "sint (y_points r ! i) = \<lfloor>q\<rfloor>"
    if "i < n" "item2 area i 1 = Fin y" "yz = Fin z" "z \<noteq> 0" "round64 (y / z) = Fin q"
       "- 32768 \<le> \<lfloor>q\<rfloor>" "\<lfloor>q\<rfloor> \<le> 32767" for i y z q
  proof -
    from r(4) that(1) have "y_points r ! i = astype_int16 oor (np_floor (np_div round64 (item2 area i 1) yz))"
      by simp
    also have "np_div round64 (item2 area i 1) yz = Fin q"
      using that(2-5) by simp
    finally show ?thesis using astype_int16_floor [OF that(6,7), of oor] by simp
  qed
  ultimately show ?thesis using r by blast
qed

theorem init_pixel_points_witness:
  "wf_ndarray example_area \<and> shape example_area = [2, 2]
   \<and> (\<exists>r. RegionOfInterest_init Fin (\<lambda>v. 0) ''roi'' example_area (Fin 2) (Fin 2) 10 10 ''img''
             (Some ''r1'') (Some example_map_info) = Inr r
          \<and> length (x_points r) = 2 \<and> length (y_points r) = 2
          \<and> sint (x_points r ! 1) = 5 \<and> sint (y_points r ! 0) = 3)
   \<and> wf_ndarray tenth_area \<and> shape tenth_area = [1, 2]
   \<and> (\<exists>r. RegionOfInterest_init round_tenth (\<lambda>v. 0) ''roi'' tenth_area (Fin tenth) (Fin tenth)
             10 10 ''img'' None None = Inr r
          \<and> length (x_points r) = 1 \<and> length (y_points r) = 1
          \<and> sint (x_points r ! 0) = 10 \<and> sint (y_points r ! 0) = 30)"
proof -
  have w: "wf_ndarray example_area" by (simp add: wf_ndarray_def example_area_def)
  have i: "item2 example_area 1 0 = Fin 11" "item2 example_area 0 1 = Fin 7"
    by (simp_all add: item2_def example_area_def)
  from init_pixel_points [OF w example_shape, of Fin "\<lambda>v. 0" "''roi''" "Fin 2" "Fin 2" 10 10 "''img''"
         "Some ''r1''" "Some example_map_info"]
  obtain r where r: "RegionOfInterest_init Fin (\<lambda>v. 0) ''roi'' example_area (Fin 2) (Fin 2) 10 10 ''img''
             (Some ''r1'') (Some example_map_info) = Inr r"
      "length (x_points r) = 2" "length (y_points r) = 2"
      "\<forall>i<2. \<forall>x z q. item2 example_area i 0 = Fin x \<and> Fin 2 = Fin z \<and> z \<noteq> 0
                        \<and> Fin (x / z) = Fin q
                        \<and> - 32768 \<le> \<lfloor>q\<rfloor> \<and> \<lfloor>q\<rfloor> \<le> 32767
                    \<longrightarrow> sint (x_points r ! i) = \<lfloor>q\<rfloor>"
      "\<forall>i<2. \<forall>y z q. item2 example_area i 1 = Fin y \<and> Fin 2 = Fin z \<and> z \<noteq> 0
                        \<and> Fin (y / z) = Fin q
                        \<and> - 32768 \<le> \<lfloor>q\<rfloor> \<and> \<lfloor>q\<rfloor> \<le> 32767
                    \<longrightarrow> sint (y_points r ! i) = \<lfloor>q\<rfloor>"
    by (elim exE conjE)
  have "item2 example_area 1 0 = Fin 11 \<and> Fin 2 = Fin 2 \<and> (2 :: real) \<noteq> 0
          \<and> Fin (11 / 2) = Fin (11 / 2)
          \<and> - 32768 \<le> \<lfloor>11 / 2 :: real\<rfloor> \<and> \<lfloor>11 / 2 :: real\<rfloor> \<le> 32767"
    using i(1) by simp
  with r(4) [rule_format, of 1 11 2 "11 / 2"] have x: "sint (x_points r ! 1) = 5" by simp
  have "item2 example_area 0 1 = Fin 7 \<and> Fin 2 = Fin 2 \<and> (2 :: real) \<noteq> 0
          \<and> Fin (7 / 2) = Fin (7 / 2)
          \<and> - 32768 \<le> \<lfloor>7 / 2 :: real\<rfloor> \<and> \<lfloor>7 / 2 :: real\<rfloor> \<le> 32767"
    using i(2) by simp
  with r(5) [rule_format, of 0 7 2 "7 / 2"] have y: "sint (y_points r ! 0) = 3" by simp
  have w': "wf_ndarray tenth_area" and sh': "shape tenth_area = [1, 2]"
    by (simp_all add: wf_ndarray_def tenth_area_def)
  have i': "item2 tenth_area 0 0 = Fin 1" "item2 tenth_area 0 1 = Fin 3"
    by (simp_all add: item2_def tenth_area_def)
  have nz: "tenth \<noteq> 0" by (simp add: tenth_def)
  have q1: "round_tenth (1 / tenth) = Fin 10" by (simp add: round_tenth_def)
  have q3: "round_tenth (3 / tenth) = Fin 30" using nz by (simp add: round_tenth_def)
  from init_pixel_points [OF w' sh', of round_tenth "\<lambda>v. 0" "''roi''" "Fin tenth" "Fin tenth"
         10 10 "''img''" None None]
  obtain r' where r': "RegionOfInterest_init round_tenth (\<lambda>v. 0) ''roi'' tenth_area (Fin tenth)
             (Fin tenth) 10 10 ''img'' None None = Inr r'"
      "length (x_points r') = 1" "length (y_points r') = 1"
      "\<forall>i<1. \<forall>x z q. item2 tenth_area i 0 = Fin x \<and> Fin tenth = Fin z \<and> z \<noteq> 0
                        \<and> round_tenth (x / z) = Fin q
                        \<and> - 32768 \<le> \<lfloor>q\<rfloor> \<and> \<lfloor>q\<rfloor> \<le> 32767
                    \<longrightarrow> sint (x_points r' ! i) = \<lfloor>q\<rfloor>"
      "\<forall>i<1. \<forall>y z q. item2 tenth_area i 1 = Fin y \<and> Fin tenth = Fin z \<and> z \<noteq> 0
                        \<and> round_tenth (y / z) = Fin q
                        \<and> - 32768 \<le> \<lfloor>q\<rfloor> \<and> \<lfloor>q\<rfloor> \<le> 32767
                    \<longrightarrow> sint (y_points r' ! i) = \<lfloor>q\<rfloor>"
    by (elim exE conjE)
  have "item2 tenth_area 0 0 = Fin 1 \<and> Fin tenth = Fin tenth \<and> tenth \<noteq> 0
          \<and> round_tenth (1 / tenth) = Fin 10
          \<and> - 32768 \<le> \<lfloor>10 :: real\<rfloor> \<and> \<lfloor>10 :: real\<rfloor> \<le> 32767"
    using i'(1) q1 nz by simp
  with r'(4) [rule_format, of 0 1 tenth 10] have x': "sint (x_points r' ! 0) = 10" by simp
  have "item2 tenth_area 0 1 = Fin 3 \<and> Fin tenth = Fin tenth \<and> tenth \<noteq> 0
          \<and> round_tenth (3 / tenth) = Fin 30
          \<and> - 32768 \<le> \<lfloor>30 :: real\<rfloor> \<and> \<lfloor>30 :: real\<rfloor> \<le> 32767"
    using i'(2) q3 nz by simp
  with r'(5) [rule_format, of 0 3 tenth 30] have y': "sint (y_points r' ! 0) = 30" by simp
  have A: "\<exists>r. RegionOfInterest_init Fin (\<lambda>v. 0) ''roi'' example_area (Fin 2) (Fin 2) 10 10 ''img''
             (Some ''r1'') (Some example_map_info) = Inr r
          \<and> length (x_points r) = 2 \<and> length (y_points r) = 2
          \<and> sint (x_points r ! 1) = 5 \<and> sint (y_points r ! 0) = 3"
    using r(1-3) x y by (intro exI [of _ r] conjI)
  have B: "\<exists>r. RegionOfInterest_init round_tenth (\<lambda>v. 0) ''roi'' tenth_area (Fin tenth) (Fin tenth)
             10 10 ''img'' None None = Inr r
          \<and> length (x_points r) = 1 \<and> length (y_points r) = 1
          \<and> sint (x_points r ! 0) = 10 \<and> sint (y_points r ! 0) = 30"
    using r'(1-3) x' y' by (intro exI [of _ r'] conjI)
  from w example_shape A w' sh' B show ?thesis by (intro conjI)
qed

text \<open>
  Claim C6. In every state of a region in which its map-info is present, with reference
  pixel \<open>(rx, ry)\<close>, pixel size \<open>(sx, sy)\<close> and zero coordinate \<open>(zx, zy)\<close>, the geo
  coordinates exist, there is one per point, and
  \<open>geo_x[i] = (pixel_x[i] - (rx - 1)) * sx + zx\<close> and
  \<open>geo_y[i] = zy - (pixel_y[i] - (ry - 1)) * sy\<close>.
\<close>

theorem geo_coords_formula:
  assumes "reachable r" "map_info r = Some m"
  shows "\<exists>gx gy. x_coords r = Some gx \<and> y_coords r = Some gy
           \<and> length gx = length (x_points r) \<and> length gy = length (y_points r)
           \<and> (\<forall>i<length (x_points r).
                 gx ! i = (real_of_int (sint (x_points r ! i)) - (x_reference_pixel m - 1))
                            * x_pixel_size m + x_zero_coordinate m)
           \<and> (\<forall>i<length (y_points r).
                 gy ! i = y_zero_coordinate m
                            - (real_of_int (sint (y_points r ! i)) - (y_reference_pixel m - 1))
                              * y_pixel_size m)"
  using reachable_coords [OF assms] by simp

theorem geo_coords_formula_witness:
  "reachable example_region \<and> map_info example_region = Some example_map_info
   \<and> x_coords example_region = Some [(2 - (1 - 1)) * 30 + 1000, (5 - (1 - 1)) * 30 + 1000]
   \<and> y_coords example_region = Some [5000 - (3 - (1 - 1)) * 30, 5000 - (0 - (1 - 1)) * 30]"
  using geo_coords_formula [OF example_reachable, of example_map_info] example_reachable
  by (simp add: example_region_def)

text \<open>
  Claim C9. Iteration is restartable: \<open>__iter__\<close> puts the cursor before the first
  element, a \<open>for\<close> loop over a region visits its pixel coordinates in order, and a second
  loop over the region as the first one left it visits the same coordinates in the same
  order.
\<close>

theorem iteration_restartable:
  assumes "reachable r"
  shows "index (RegionOfInterest_iter r) = - 1
       \<and> (\<exists>r1 r2. for_loop pixel_at r = Inr (zip (x_points r) (y_points r), r1)
                \<and> for_loop pixel_at r1 = Inr (zip (x_points r) (y_points r), r2)
                \<and> x_points r1 = x_points r \<and> y_points r1 = y_points r)"
proof -
  from reachable_lengths [OF assms]
  have l: "length (x_points r) = length (y_points r)"
    and lim: "iter_limit r = int (length (x_points r)) - 1" by simp_all
  let ?a = "RegionOfInterest_iter r"
  let ?r1 = "?a\<lparr>index := iter_limit ?a\<rparr>"
  let ?b = "RegionOfInterest_iter ?r1"
  have 1: "for_each pixel_at ?a = Inr (drop (nat (index ?a + 1)) (zip (x_points ?a) (y_points ?a)), ?r1)"
    by (rule for_each_pixel_at) (use l lim in \<open>simp_all add: RegionOfInterest_iter_def\<close>)
  have 2: "for_each pixel_at ?b =
             Inr (drop (nat (index ?b + 1)) (zip (x_points ?b) (y_points ?b)), ?b\<lparr>index := iter_limit ?b\<rparr>)"
    by (rule for_each_pixel_at) (use l lim in \<open>simp_all add: RegionOfInterest_iter_def\<close>)
  from 1 have "for_loop pixel_at r = Inr (zip (x_points r) (y_points r), ?r1)"
    by (simp add: for_loop_def RegionOfInterest_iter_def)
  moreover from 2 have "for_loop pixel_at ?r1 = Inr (zip (x_points r) (y_points r), ?b\<lparr>index := iter_limit ?b\<rparr>)"
    by (simp add: for_loop_def RegionOfInterest_iter_def)
  moreover have "x_points ?r1 = x_points r" "y_points ?r1 = y_points r"
    by (simp_all add: RegionOfInterest_iter_def)
  ultimately show ?thesis
    by (auto simp: RegionOfInterest_iter_def)
qed

theorem iteration_restartable_witness:
  "reachable example_region
   \<and> (\<exists>r1 r2. for_loop pixel_at example_region = Inr ([(2, 3), (5, 0)], r1)
            \<and> for_loop pixel_at r1 = Inr ([(2, 3), (5, 0)], r2))"
proof -
  have z: "zip (x_points example_region) (y_points example_region) = [(2, 3), (5, 0)]"
    by (simp add: example_region_def)
  from iteration_restartable [OF example_reachable]
  obtain r1 r2 where
    "for_loop pixel_at example_region = Inr (zip (x_points example_region) (y_points example_region), r1)"
    "for_loop pixel_at r1 = Inr (zip (x_points example_region) (y_points example_region), r2)"
    by blast
  with z example_reachable show ?thesis by auto
qed

text \<open>
  Claim C10. On a non-empty region whose cursor is at its initial position \<open>-1\<close>, before
  the first advance, \<open>x_point()\<close> and \<open>y_point()\<close> do not fail: they return the last point
  of the region.
\<close>

theorem read_before_first_advance:
  assumes "reachable r" "index r = - 1" "x_points r \<noteq> []"
  shows "x_point r = Inr (last (x_points r)) \<and> y_point r = Inr (last (y_points r))"
proof -
  from reachable_lengths [OF assms(1)] have l: "length (x_points r) = length (y_points r)" by simp
  with assms(3) have ny: "y_points r \<noteq> []" by auto
  have "nat (int (length (x_points r)) + - 1) = length (x_points r) - 1"
       "nat (int (length (y_points r)) + - 1) = length (y_points r) - 1" by simp_all
  moreover have "0 < length (x_points r)" "0 < length (y_points r)"
    using assms(3) ny by simp_all
  ultimately show ?thesis
    using assms(2,3) ny by (simp add: x_point_def y_point_def getitem_def last_conv_nth Suc_le_eq)
qed

theorem read_before_first_advance_witness:
  "reachable example_region \<and> index example_region = - 1 \<and> x_points example_region \<noteq> []
   \<and> x_point example_region = Inr 5 \<and> y_point example_region = Inr 0"
proof -
  have h: "index example_region = - 1" "x_points example_region \<noteq> []"
    by (simp_all add: example_region_def)
  from read_before_first_advance [OF example_reachable h]
  show ?thesis using h example_reachable by (simp add: example_region_def)
qed

lemma set_map_info_None_coords:
  "x_coords (set_map_info r None) = x_coords r \<and> y_coords (set_map_info r None) = y_coords r"
  by (simp add: set_map_info_def calculate_coords_def)

lemma set_map_info_pixels:
  "x_points (set_map_info r mi) = x_points r \<and> y_points (set_map_info r mi) = y_points r"
  by (simp add: set_map_info_def)

text \<open>
  Claim C2 says that \<open>set_map_info(None)\<close> makes the geo coordinates unavailable and that
  a new map-info changes them without touching the pixel coordinates. The second part
  holds (\<open>set_map_info_pixels\<close> with \<open>reachable_coords\<close>). The first does not:
  \<open>__calculate_coords\<close> does nothing when the map-info is \<open>None\<close>, so the coordinates
  computed from the old map-info stay (\<open>set_map_info_None_coords\<close>). The theorem runs the
  code on the example region: after \<open>set_map_info(None)\<close> and one advance,
  \<open>x_coordinate()\<close> and \<open>y_coordinate()\<close> still return 1060 and 4910.
\<close>

theorem set_map_info_None_keeps_coords:
  "RegionOfInterest_init Fin (\<lambda>v. 0) ''roi'' example_area (Fin 2) (Fin 2) 10 10 ''img'' (Some ''r1'')
     (Some example_map_info) = Inr example_region
   \<and> map_info (set_map_info example_region None) = None
   \<and> (\<exists>r'. RegionOfInterest_next (set_map_info example_region None) = Inr r'
          \<and> x_coordinate r' = Inr (Some 1060) \<and> y_coordinate r' = Inr (Some 4910))"
  by (simp add: example_init set_map_info_def calculate_coords_def RegionOfInterest_next_def
        x_coordinate_def y_coordinate_def getitem_def example_region_def)

section \<open>Properties of the export tool\<close>

lemma tools_init_no_map_info:
  "map_info r = None \<Longrightarrow>
     OpenSpectraRegionTools_init r = Inl (AttributeError ''NoneType object has no attribute projection_name'')"
  by (simp add: OpenSpectraRegionTools_init_def)

text \<open>
  Claim C4 describes the file written for a region without map-info (display name
  \<open>r1\<close>, image \<open>img\<close> of 10 by 10, the point \<open>(0, 1)\<close> at zoom 1). The constructor of the
  export tool reads \<open>projection_name()\<close> off the map-info before it tests it against
  \<open>None\<close>, so for such a region it raises \<open>AttributeError\<close>: there is no tool to call
  \<open>save_region\<close> on and nothing is written.
\<close>

theorem region_tools_init_raises_without_map_info:
  "\<exists>r. RegionOfInterest_init Fin (\<lambda>v. 0) ''roi'' \<lparr>shape = [1, 2], data = [Fin 0, Fin 1]\<rparr>
          (Fin 1) (Fin 1) 10 10 ''img'' (Some ''r1'') None = Inr r
      \<and> x_points r = [0] \<and> y_points r = [1] \<and> map_info r = None
      \<and> OpenSpectraRegionTools_init r =
          Inl (AttributeError ''NoneType object has no attribute projection_name'')"
  by (simp add: RegionOfInterest_init_def Let_def column_def item2_def astype_int16_def
        calculate_coords_def OpenSpectraRegionTools_init_def)

section \<open>Properties of the band statistics\<close>

lemma Bands_init_missing_labels:
  "Bands_init bs None = Inl (TypeError ''__init__() missing 1 required positional argument: labels'')"
  by (simp add: Bands_init_def)

text \<open>
  Claim C3 says that constructing \<open>BandStatistics\<close> from a clean band array succeeds with
  \<open>plus_one_std = mean + std\<close> and \<open>minus_one_std = mean - std\<close>. The constructor calls its
  parent's constructor without the required \<open>labels\<close>, so it raises \<open>TypeError\<close> on every
  band array, before any statistic is computed.
\<close>

theorem BandStatistics_init_raises:
  "BandStatistics_init np bs =
     Inl (TypeError ''__init__() missing 1 required positional argument: labels'')"
  by (simp add: BandStatistics_init_def Bands_init_missing_labels)

lemma foldl_np_minimum_NaN: "foldl np_minimum NaN xs = NaN"
  by (induction xs) (simp_all add: np_minimum_def)

lemma foldl_np_maximum_NaN: "foldl np_maximum NaN xs = NaN"
  by (induction xs) (simp_all add: np_maximum_def)

lemma float_min_NaN: "NaN \<in> set xs \<Longrightarrow> float_min xs = Inr NaN"
proof -
  have "NaN \<in> set (x # xs) \<Longrightarrow> foldl np_minimum x xs = NaN" for x xs
    by (induction xs arbitrary: x) (auto simp: np_minimum_def foldl_np_minimum_NaN)
  then show "NaN \<in> set xs \<Longrightarrow> float_min xs = Inr NaN"
    by (cases xs) (simp_all add: float_min_def reduce_all_def)
qed

lemma float_max_NaN: "NaN \<in> set xs \<Longrightarrow> float_max xs = Inr NaN"
proof -
  have "NaN \<in> set (x # xs) \<Longrightarrow> foldl np_maximum x xs = NaN" for x xs
    by (induction xs arbitrary: x) (auto simp: np_maximum_def foldl_np_maximum_NaN)
  then show "NaN \<in> set xs \<Longrightarrow> float_max xs = Inr NaN"
    by (cases xs) (simp_all add: float_max_def reduce_all_def)
qed

lemma noise_cleanup_with_NaN:
  assumes "NaN \<in> set (data a)"
  shows "bogus_noise_cleanup (FloatArray t a) = Inr (Masked t a (map (outside (Fin 0) (Fin 1)) (data a)))"
    and "outside (Fin 0) (Fin 1) NaN = False"
    and "outside (Fin 0) (Fin 1) (Fin 2) = True"
  using assms by (simp_all add: float_min_NaN float_max_NaN outside_def np_greater_def)

text \<open>
  Claim C1 says that the noise cleanup masks both a 2.0 and a NaN of a floating-point band
  array. On a band with the values 0.25, 2.0, NaN and 0.75 the cleanup masks the 2.0 only:
  \<open>min()\<close> and \<open>max()\<close> of an array with a NaN are NaN, the comparisons \<open>== np.nan\<close> and
  \<open>== np.inf\<close> are false of NaN, so \<open>masked_invalid\<close> is not applied, and
  \<open>masked_outside\<close> compares with \<open><\<close> and \<open>>\<close>, which are false of NaN too.
  \<open>noise_cleanup_with_NaN\<close> shows the same for every array that holds a NaN.
\<close>

theorem noise_cleanup_leaves_NaN:
  "bogus_noise_cleanup
     (FloatArray Float64 \<lparr>shape = [4, 1], data = [Fin (1 / 4), Fin 2, NaN, Fin (3 / 4)]\<rparr>)
   = Inr (Masked Float64 \<lparr>shape = [4, 1], data = [Fin (1 / 4), Fin 2, NaN, Fin (3 / 4)]\<rparr>
            [False, True, False, False])"
  by (simp add: float_min_def float_max_def reduce_all_def np_minimum_def np_maximum_def
        outside_def np_greater_def)

section \<open>Properties of the histogram data\<close>

text \<open>
  The branches of \<open>__get_hist_data\<close>: floating-point data gets the configured number of
  bins whatever its range, data of any other type raises \<open>TypeError\<close> (the spec's
  \<open>UnsupportedTypeError\<close>), and integer data gets \<open>max - min\<close> bins where that difference
  fits the type of the data: data with minimum 0 and maximum 9 gets 9 bins.
\<close>

lemma hist_float_bins:
  "data a \<noteq> [] \<Longrightarrow> \<exists>h. get_hist_data float_bins (FloatArray t a) = Inr h \<and> bins h = float_bins"
  by (cases "data a") (simp_all add: float_min_def float_max_def reduce_all_def HistogramPlotData_init_def)

lemma hist_other_type:
  "get_hist_data float_bins (OtherArray n) = Inl (TypeError (''Data with type '' @ n @ '' is not supported''))"
  by simp

lemma wrap_in_range: "in_range t v \<Longrightarrow> wrap t v = v"
  by (cases t) (simp_all add: wrap_def in_range_def)

lemma hist_int_bins:
  assumes "int_min (data a) = Inr lo" "int_max (data a) = Inr hi" "in_range t (hi - lo)"
  shows "\<exists>h. get_hist_data float_bins (IntArray t a) = Inr h
           \<and> x_data h = (IntV lo, IntV hi) \<and> bins h = hi - lo"
  using assms by (simp add: HistogramPlotData_init_def wrap_in_range)

lemma hist_int_0_9:
  "\<exists>h. get_hist_data float_bins (IntArray UInt8 \<lparr>shape = [4], data = [3, 0, 9, 5]\<rparr>) = Inr h
      \<and> x_data h = (IntV 0, IntV 9) \<and> bins h = 9"
  by (simp add: int_min_def int_max_def reduce_all_def HistogramPlotData_init_def wrap_def)

text \<open>
  Claim C7 says that for integer data the bin count is \<open>max - min\<close> over the data. The
  difference is computed on two scalars of the type of the data and wraps around in that
  type: for 16-bit signed data with minimum -32768 and maximum 10000 the bin count is
  -22768, not 42768.
\<close>

theorem hist_int16_bins_wrap:
  "\<exists>h. get_hist_data float_bins (IntArray Int16 \<lparr>shape = [3], data = [- 32768, 0, 10000]\<rparr>) = Inr h
      \<and> x_data h = (IntV (- 32768), IntV 10000) \<and> bins h = - 22768"
  by (simp add: int_min_def int_max_def reduce_all_def HistogramPlotData_init_def wrap_def)

end
